theory Spec2Isabelle
  imports Complex_Main "HOL-Library.Log_Nat"
begin

section \<open>Numbers\<close>

text \<open>
  The calculator works on JavaScript \<^verbatim>\<open>number\<close> values, which are IEEE-754 doubles.
  Every finite double is a rational, so amounts are rationals, and the decimal literals
  of the source (\<^verbatim>\<open>0.081\<close>, \<^verbatim>\<open>0.165\<close>, \<^verbatim>\<open>0.27\<close>, \<^verbatim>\<open>0.919\<close>) are the decimal fractions
  they spell. The pages are modelled twice. In \<open>calculation\<close> and \<open>calculation_v1\<close> each
  operator is the exact one: these say which expression of the inputs a variable holds.
  In \<open>calculation_double\<close> and \<open>calculation_v1_double\<close> each literal and each operator
  is followed by the rounding to the nearest double: these say which number the script
  computes. Statements that need a law of exact arithmetic (distributivity, or regrouping
  a product or a quotient) are made of the second pair. Scale and step numbers come from
  \<^verbatim>\<open>parseInt\<close> and from the options of a select box, so they are integers.
\<close>

type_synonym number = rat

section \<open>The salary table\<close>

text \<open>
  Both pages import \<^verbatim>\<open>getMonthlyCompensation\<close> from \<^verbatim>\<open>$lib/salaryData\<close>. That module
  is not among the sources, so the table is a parameter of the model: a mapping from a
  scale (schaal) to a mapping from a step (trede) to the monthly amount.
\<close>

datatype error = NotFound

type_synonym salaryData = "int \<rightharpoonup> (int \<rightharpoonup> number)"

text \<open>
  Modelled from the spec: \<^verbatim>\<open>getMonthlyCompensation\<close> of \<^verbatim>\<open>$lib/salaryData\<close>, whose
  source is missing. The specification gives its contract: \<^verbatim>\<open>monthlyBase(scale, step)\<close>
  returns the amount of the table, and fails with \<^verbatim>\<open>NotFound\<close> if the (scale, step)
  pair is absent.
\<close>

definition getMonthlyCompensation :: "salaryData \<Rightarrow> int \<Rightarrow> int \<Rightarrow> error + number" where
  "getMonthlyCompensation salaryData schaal trede =
     (case salaryData schaal of
        None \<Rightarrow> Inl NotFound
      | Some tredes \<Rightarrow>
          (case tredes trede of
             None \<Rightarrow> Inl NotFound
           | Some amount \<Rightarrow> Inr amount))"

section \<open>The page with a choice of hours\<close>

text \<open>
  The component that lets the visitor choose the contracted hours (27, 36, 38 or 40).
  Its source is the Svelte component that follows the project description in
  \<^verbatim>\<open>README.md\<close> (from line 15 on; the reactive statements are lines 53 to 61, the
  conditional blocks lines 121 and 185). Its reactive variables are the fields of a
  record; each \<^verbatim>\<open>$:\<close> statement of the script is one binding of \<open>calculation\<close>, in
  the order of the source:
  \<^verbatim>\<open>
  $: scaleFactor = 12 * (selectedUren / 36);
  $: yearlyPreTaxSalary = monthlyCompensation * scaleFactor;
  $: individualPensionContribution = (monthlyCompensation * 0.081) * scaleFactor;
  $: ikbBudget = (monthlyCompensation * 0.165) * scaleFactor;
  $: pretaxSalaryInclBenefits = yearlyPreTaxSalary + ikbBudget - individualPensionContribution;
  $: pensoenEmployer = (monthlyCompensation * (0.27 - 0.081)) * scaleFactor;
  $: pension = individualPensionContribution + pensoenEmployer;
  $: totalCompensation = pretaxSalaryInclBenefits + pension;
  \<close>
\<close>

record component =
  selectedSchaal :: int
  selectedTrede :: int
  selectedUren :: number
  monthlyCompensation :: number
  scaleFactor :: number
  yearlyPreTaxSalary :: number
  individualPensionContribution :: number
  ikbBudget :: number
  pretaxSalaryInclBenefits :: number
  pensoenEmployer :: number
  pension :: number
  totalCompensation :: number

definition calculation :: "int \<Rightarrow> int \<Rightarrow> number \<Rightarrow> number \<Rightarrow> component" where
  "calculation = (\<lambda>selectedSchaal selectedTrede selectedUren monthlyCompensation.
      let scaleFactor = 12 * (selectedUren / 36);
          yearlyPreTaxSalary = monthlyCompensation * scaleFactor;
          individualPensionContribution = (monthlyCompensation * 0.081) * scaleFactor;
          ikbBudget = (monthlyCompensation * 0.165) * scaleFactor;
          pretaxSalaryInclBenefits =
            yearlyPreTaxSalary + ikbBudget - individualPensionContribution;
          pensoenEmployer = (monthlyCompensation * (0.27 - 0.081)) * scaleFactor;
          pension = individualPensionContribution + pensoenEmployer;
          totalCompensation = pretaxSalaryInclBenefits + pension
      in \<lparr> selectedSchaal = selectedSchaal,
           selectedTrede = selectedTrede,
           selectedUren = selectedUren,
           monthlyCompensation = monthlyCompensation,
           scaleFactor = scaleFactor,
           yearlyPreTaxSalary = yearlyPreTaxSalary,
           individualPensionContribution = individualPensionContribution,
           ikbBudget = ikbBudget,
           pretaxSalaryInclBenefits = pretaxSalaryInclBenefits,
           pensoenEmployer = pensoenEmployer,
           pension = pension,
           totalCompensation = totalCompensation \<rparr>)"

text \<open>
  The component as a whole: \<^verbatim>\<open>$: monthlyCompensation = getMonthlyCompensation(selectedSchaal,
  selectedTrede)\<close> runs first, and a failing lookup leaves no component to show.
\<close>

definition page :: "salaryData \<Rightarrow> int \<Rightarrow> int \<Rightarrow> number \<Rightarrow> error + component" where
  "page salaryData schaal trede uren =
     (case getMonthlyCompensation salaryData schaal trede of
        Inl e \<Rightarrow> Inl e
      | Inr amount \<Rightarrow> Inr (calculation schaal trede uren amount))"

text \<open>
  Two blocks of the template are conditional. The note on high incomes is inside
  \<^verbatim>\<open>{#if yearlyPreTaxSalary + ikbBudget > 130000}\<close>; the line with the total scaled to a
  five-day week is inside \<^verbatim>\<open>{#if selectedUren === 36}\<close> and shows
  \<^verbatim>\<open>totalCompensation * (5 / 4)\<close>.
\<close>

definition warningNote :: "component \<Rightarrow> bool" where
  "warningNote c = (yearlyPreTaxSalary c + ikbBudget c > 130000)"

definition scaledTo5Day :: "component \<Rightarrow> number option" where
  "scaledTo5Day c =
     (if selectedUren c = 36 then Some (totalCompensation c * (5 / 4)) else None)"

section \<open>The page for the 36-hour week\<close>

text \<open>
  The component of \<^verbatim>\<open>src/routes/+page.svelte\<close> (lines 34 to 39) has no choice of
  hours: it multiplies by 12, and its yearly salary line carries the factor 0.919, which
  is the monthly amount less the employee's pension share of 0.081.
  \<^verbatim>\<open>
  $: yearlyPreTaxSalary = (monthlyCompensation * 0.919) * 12;
  $: preTaxTopup = (monthlyCompensation * 0.165) * 12;
  $: pretaxSalaryInclBenefits = yearlyPreTaxSalary + preTaxTopup;
  $: pension = (monthlyCompensation * 0.27) * 12;
  $: totalCompensation = yearlyPreTaxSalary + preTaxTopup + pension;
  $: totalCompensation5Day = totalCompensation * (5 / 4);
  \<close>
  Names that the two components share carry the suffix \<open>_v1\<close> here.
\<close>

record component_v1 =
  selectedSchaal_v1 :: int
  selectedTrede_v1 :: int
  monthlyCompensation_v1 :: number
  yearlyPreTaxSalary_v1 :: number
  preTaxTopup :: number
  pretaxSalaryInclBenefits_v1 :: number
  pension_v1 :: number
  totalCompensation_v1 :: number
  totalCompensation5Day :: number

definition calculation_v1 :: "int \<Rightarrow> int \<Rightarrow> number \<Rightarrow> component_v1" where
  "calculation_v1 = (\<lambda>selectedSchaal selectedTrede monthlyCompensation.
      let yearlyPreTaxSalary = (monthlyCompensation * 0.919) * 12;
          preTaxTopup = (monthlyCompensation * 0.165) * 12;
          pretaxSalaryInclBenefits = yearlyPreTaxSalary + preTaxTopup;
          pension = (monthlyCompensation * 0.27) * 12;
          totalCompensation = yearlyPreTaxSalary + preTaxTopup + pension;
          totalCompensation5Day = totalCompensation * (5 / 4)
      in \<lparr> selectedSchaal_v1 = selectedSchaal,
           selectedTrede_v1 = selectedTrede,
           monthlyCompensation_v1 = monthlyCompensation,
           yearlyPreTaxSalary_v1 = yearlyPreTaxSalary,
           preTaxTopup = preTaxTopup,
           pretaxSalaryInclBenefits_v1 = pretaxSalaryInclBenefits,
           pension_v1 = pension,
           totalCompensation_v1 = totalCompensation,
           totalCompensation5Day = totalCompensation5Day \<rparr>)"

definition page_v1 :: "salaryData \<Rightarrow> int \<Rightarrow> int \<Rightarrow> error + component_v1" where
  "page_v1 salaryData schaal trede =
     (case getMonthlyCompensation salaryData schaal trede of
        Inl e \<Rightarrow> Inl e
      | Inr amount \<Rightarrow> Inr (calculation_v1 schaal trede amount))"

section \<open>Double-precision arithmetic\<close>

text \<open>
  A double has a significand of 53 bits. For \<open>x\<close> other than zero, \<open>exponent x\<close> is the
  \<open>e\<close> with \<open>2 ^ e \<le> \<bar>x\<bar> < 2 ^ (e + 1)\<close>, the doubles around \<open>x\<close> are the multiples of
  \<open>2 ^ (e - 52)\<close>, and \<open>double x\<close> is the nearest of them, a tie going to the even multiple.
  The exponent is not bounded here. So \<open>double\<close> is the rounding of IEEE-754 binary64
  wherever the result is neither subnormal nor infinite, which is so for every amount
  between a cent and a billion and every number of hours between 1 and 168; the theorems
  on doubles are stated for those inputs.
\<close>

definition exponent :: "number \<Rightarrow> int" where
  "exponent x =
     (let (p, q) = quotient_of \<bar>x\<bar>; e = bitlen p - bitlen q
      in if 2 powi e \<le> \<bar>x\<bar> then e else e - 1)"

definition nearest_even :: "number \<Rightarrow> int" where
  "nearest_even y =
     (let n = \<lfloor>y\<rfloor>; r = y - of_int n
      in if r < 1 / 2 then n else if 1 / 2 < r then n + 1 else if even n then n else n + 1)"

definition double :: "number \<Rightarrow> number" where
  "double x =
     (if x = 0 then 0
      else let ulp = 2 powi (exponent x - 52)
           in of_int (nearest_even (x / ulp)) * ulp)"

text \<open>
  The operators of the script on doubles: the exact result, rounded. The integer
  literals of the source (12, 36, 5, 4, 130000) are doubles as they stand.
\<close>

definition mul64 :: "number \<Rightarrow> number \<Rightarrow> number" where
  "mul64 a b = double (a * b)"

definition div64 :: "number \<Rightarrow> number \<Rightarrow> number" where
  "div64 a b = double (a / b)"

definition add64 :: "number \<Rightarrow> number \<Rightarrow> number" where
  "add64 a b = double (a + b)"

definition sub64 :: "number \<Rightarrow> number \<Rightarrow> number" where
  "sub64 a b = double (a - b)"

text \<open>
  The two components again, statement by statement, with the operators on doubles. They
  fill the same records.
\<close>

definition calculation_double :: "int \<Rightarrow> int \<Rightarrow> number \<Rightarrow> number \<Rightarrow> component" where
  "calculation_double = (\<lambda>selectedSchaal selectedTrede selectedUren monthlyCompensation.
      let scaleFactor = mul64 12 (div64 selectedUren 36);
          yearlyPreTaxSalary = mul64 monthlyCompensation scaleFactor;
          individualPensionContribution =
            mul64 (mul64 monthlyCompensation (double 0.081)) scaleFactor;
          ikbBudget = mul64 (mul64 monthlyCompensation (double 0.165)) scaleFactor;
          pretaxSalaryInclBenefits =
            sub64 (add64 yearlyPreTaxSalary ikbBudget) individualPensionContribution;
          pensoenEmployer =
            mul64 (mul64 monthlyCompensation (sub64 (double 0.27) (double 0.081))) scaleFactor;
          pension = add64 individualPensionContribution pensoenEmployer;
          totalCompensation = add64 pretaxSalaryInclBenefits pension
      in \<lparr> selectedSchaal = selectedSchaal,
           selectedTrede = selectedTrede,
           selectedUren = selectedUren,
           monthlyCompensation = monthlyCompensation,
           scaleFactor = scaleFactor,
           yearlyPreTaxSalary = yearlyPreTaxSalary,
           individualPensionContribution = individualPensionContribution,
           ikbBudget = ikbBudget,
           pretaxSalaryInclBenefits = pretaxSalaryInclBenefits,
           pensoenEmployer = pensoenEmployer,
           pension = pension,
           totalCompensation = totalCompensation \<rparr>)"


definition page_double :: "salaryData \<Rightarrow> int \<Rightarrow> int \<Rightarrow> number \<Rightarrow> error + component" where
  "page_double salaryData schaal trede uren =
     (case getMonthlyCompensation salaryData schaal trede of
        Inl e \<Rightarrow> Inl e
      | Inr amount \<Rightarrow> Inr (calculation_double schaal trede uren amount))"

text \<open>
  For the error analysis: one rounding changes a non-negative number by a factor between
  \<open>round_lo\<close> and \<open>round_hi\<close>, and \<open>enclosed g l h x\<close> says that \<open>x\<close> lies between \<open>g * l\<close>
  and \<open>g * h\<close>, where \<open>g\<close> is the exact amount that \<open>x\<close> approximates.
\<close>

definition round_lo :: number where
  "round_lo = 1 - 1 / 2 ^ 53"

definition round_hi :: number where
  "round_hi = 1 + 1 / 2 ^ 53"

definition enclosed :: "number \<Rightarrow> number \<Rightarrow> number \<Rightarrow> number \<Rightarrow> bool" where
  "enclosed g l h x = (g * l \<le> x \<and> x \<le> g * h)"

section \<open>Inputs used as examples\<close>

text \<open>
  A table with the single entry that the concrete scenario of the specification
  assumes: scale 11, step 5, a monthly amount of 4000.
\<close>

definition scenarioTable :: salaryData where
  "scenarioTable = [11 \<mapsto> [5 \<mapsto> 4000]]"

section \<open>The fields of the calculation\<close>

text \<open>
  What each reactive variable holds, as a function of the monthly amount \<open>m\<close> and the
  hours \<open>h\<close>. The lemmas unfold the chain of bindings once, for the theorems below.
\<close>

lemma page_found:
  "getMonthlyCompensation salaryData schaal trede = Inr m \<Longrightarrow>
   page salaryData schaal trede uren = Inr (calculation schaal trede uren m)"
  by (simp add: page_def)

lemma page_v1_found:
  "getMonthlyCompensation salaryData schaal trede = Inr m \<Longrightarrow>
   page_v1 salaryData schaal trede = Inr (calculation_v1 schaal trede m)"
  by (simp add: page_v1_def)

lemma scenario_lookup: "getMonthlyCompensation scenarioTable 11 5 = Inr 4000"
  by (simp add: getMonthlyCompensation_def scenarioTable_def)

lemma calc_inputs:
  "selectedSchaal (calculation s t h m) = s"
  "selectedTrede (calculation s t h m) = t"
  "selectedUren (calculation s t h m) = h"
  "monthlyCompensation (calculation s t h m) = m"
  by (simp_all add: calculation_def)

lemma calc_scaleFactor: "scaleFactor (calculation s t h m) = 12 * (h / 36)"
  by (simp add: calculation_def)

lemma calc_yearly: "yearlyPreTaxSalary (calculation s t h m) = m * (12 * (h / 36))"
  by (simp add: calculation_def)

lemma calc_employee:
  "individualPensionContribution (calculation s t h m) = (m * 0.081) * (12 * (h / 36))"
  by (simp add: calculation_def)

lemma calc_ikb: "ikbBudget (calculation s t h m) = (m * 0.165) * (12 * (h / 36))"
  by (simp add: calculation_def)

lemma calc_employer:
  "pensoenEmployer (calculation s t h m) = (m * (0.27 - 0.081)) * (12 * (h / 36))"
  by (simp add: calculation_def)

lemma calc_pretax:
  "pretaxSalaryInclBenefits (calculation s t h m) =
     yearlyPreTaxSalary (calculation s t h m) + ikbBudget (calculation s t h m)
       - individualPensionContribution (calculation s t h m)"
  by (simp add: calculation_def Let_def)

lemma calc_pension:
  "pension (calculation s t h m) =
     individualPensionContribution (calculation s t h m) + pensoenEmployer (calculation s t h m)"
  by (simp add: calculation_def Let_def)

lemma calc_total:
  "totalCompensation (calculation s t h m) =
     pretaxSalaryInclBenefits (calculation s t h m) + pension (calculation s t h m)"
  by (simp add: calculation_def Let_def)

text \<open>The total is 1.354 times the yearly gross salary: 1 + 0.165 - 0.081 + 0.27.\<close>

lemma calc_total_closed:
  "totalCompensation (calculation s t h m) = 1.354 * (m * (12 * (h / 36)))"
  unfolding calc_total calc_pretax calc_pension calc_yearly calc_ikb calc_employee calc_employer
  by (simp add: algebra_simps)

text \<open>The page without the choice of hours.\<close>

lemma calc_v1_yearly: "yearlyPreTaxSalary_v1 (calculation_v1 s t m) = (m * 0.919) * 12"
  by (simp add: calculation_v1_def)

lemma calc_v1_total:
  "totalCompensation_v1 (calculation_v1 s t m) =
     (m * 0.919) * 12 + (m * 0.165) * 12 + (m * 0.27) * 12"
  by (simp add: calculation_v1_def Let_def)

lemma calc_v1_yearly_is_gross_less_contribution:
  "yearlyPreTaxSalary_v1 (calculation_v1 s t m) =
     yearlyPreTaxSalary (calculation s t 36 m) - individualPensionContribution (calculation s t 36 m)"
  by (simp add: calc_v1_yearly calc_yearly calc_employee algebra_simps)

lemma calc_v1_5day:
  "totalCompensation5Day (calculation_v1 s t m) = totalCompensation_v1 (calculation_v1 s t m) * (5 / 4)"
  by (simp add: calculation_v1_def Let_def)

section \<open>Yearly gross salary\<close>

text \<open>
  C1. For every (scale, step) pair of the table with monthly amount \<open>m\<close> and every
  number of contracted hours, the page shows a yearly gross salary of \<open>m\<close> times the
  scale factor, and the scale factor is 12 times the hours over 36. No further factor is
  applied: unless the product is zero, it differs from the amount that the factor 0.919
  would give.
\<close>

theorem yearly_gross_is_base_times_scaleFactor:
  assumes "getMonthlyCompensation salaryData schaal trede = Inr m"
  shows "\<exists>c. page salaryData schaal trede uren = Inr c
           \<and> monthlyCompensation c = m
           \<and> scaleFactor c = 12 * (uren / 36)
           \<and> yearlyPreTaxSalary c = m * scaleFactor c
           \<and> (m \<noteq> 0 \<and> uren \<noteq> 0 \<longrightarrow> yearlyPreTaxSalary c \<noteq> (m * 0.919) * scaleFactor c)"
proof -
  let ?c = "calculation schaal trede uren m"
  have shown: "page salaryData schaal trede uren = Inr ?c"
    using assms by (rule page_found)
  have base: "monthlyCompensation ?c = m"
    by (rule calc_inputs)
  have factor: "scaleFactor ?c = 12 * (uren / 36)"
    by (rule calc_scaleFactor)
  have yearly: "yearlyPreTaxSalary ?c = m * scaleFactor ?c"
    by (simp add: calculation_def)
  have other: "yearlyPreTaxSalary ?c \<noteq> (m * 0.919) * scaleFactor ?c" if "m \<noteq> 0" "uren \<noteq> 0"
    using that by (simp add: calculation_def)
  from shown base factor yearly other show ?thesis
    by blast
qed

theorem yearly_gross_witness:
  "getMonthlyCompensation scenarioTable 11 5 = Inr 4000
   \<and> (\<exists>c. page scenarioTable 11 5 40 = Inr c
          \<and> scaleFactor c = 40 / 3
          \<and> yearlyPreTaxSalary c = 160000 / 3
          \<and> yearlyPreTaxSalary c \<noteq> 49013 + 1 / 3)"
  using yearly_gross_is_base_times_scaleFactor [OF scenario_lookup, of 40]
  by (auto simp add: scenario_lookup)

section \<open>Budget, gross figure and total\<close>

text \<open>
  C3. For every (scale, step) pair of the table with monthly amount \<open>m\<close> and every
  number of hours, the individual choice budget (IKB) is \<open>m * 0.165\<close> times the scale
  factor, the gross figure including benefits is the yearly gross salary plus the budget
  minus the employee's pension contribution, and the total compensation is that figure
  plus the total pension.
\<close>

theorem budget_gross_and_total:
  assumes "getMonthlyCompensation salaryData schaal trede = Inr m"
  shows "\<exists>c. page salaryData schaal trede uren = Inr c
           \<and> ikbBudget c = m * 0.165 * scaleFactor c
           \<and> pretaxSalaryInclBenefits c =
               yearlyPreTaxSalary c + ikbBudget c - individualPensionContribution c
           \<and> totalCompensation c = pretaxSalaryInclBenefits c + pension c"
proof -
  let ?c = "calculation schaal trede uren m"
  have shown: "page salaryData schaal trede uren = Inr ?c"
    using assms by (rule page_found)
  have budget: "ikbBudget ?c = m * 0.165 * scaleFactor ?c"
    by (simp only: calc_ikb calc_scaleFactor)
  have gross: "pretaxSalaryInclBenefits ?c =
      yearlyPreTaxSalary ?c + ikbBudget ?c - individualPensionContribution ?c"
    by (rule calc_pretax)
  have total: "totalCompensation ?c = pretaxSalaryInclBenefits ?c + pension ?c"
    by (rule calc_total)
  from shown budget gross total show ?thesis
    by blast
qed

theorem budget_gross_and_total_witness:
  "getMonthlyCompensation scenarioTable 11 5 = Inr 4000
   \<and> (\<exists>c. page scenarioTable 11 5 27 = Inr c
          \<and> ikbBudget c = 5940
          \<and> pretaxSalaryInclBenefits c = 39024
          \<and> totalCompensation c = 48744)"
proof -
  obtain c where c: "page scenarioTable 11 5 27 = Inr c"
      "ikbBudget c = 4000 * 0.165 * scaleFactor c"
      "pretaxSalaryInclBenefits c =
         yearlyPreTaxSalary c + ikbBudget c - individualPensionContribution c"
      "totalCompensation c = pretaxSalaryInclBenefits c + pension c"
    using budget_gross_and_total [OF scenario_lookup, of 27] by blast
  have is_calc: "c = calculation 11 5 27 4000"
    using c(1) page_found [OF scenario_lookup, of 27] by simp
  have "ikbBudget c = 5940"
    unfolding c(2) by (simp add: is_calc calc_scaleFactor)
  moreover have "pretaxSalaryInclBenefits c = 39024"
    unfolding c(3) by (simp add: is_calc calc_yearly calc_ikb calc_employee)
  moreover have "totalCompensation c = 48744"
    unfolding c(4) c(3)
    by (simp add: is_calc calc_yearly calc_ikb calc_employee calc_pension calc_employer)
  ultimately show ?thesis
    using c(1) scenario_lookup by blast
qed

section \<open>The five-day equivalent\<close>

text \<open>
  C4. For every (scale, step) pair of the table: at 36 contracted hours the scale factor
  is 12 and the page shows the total compensation times 5/4, that is times 1.25, as the
  five-day equivalent; at any other number of hours it shows no five-day equivalent.
  The page without a choice of hours, whose factor is the 12 of the 36-hour week, always
  shows its total times 5/4.
\<close>

theorem five_day_equivalent_only_at_36:
  assumes "getMonthlyCompensation salaryData schaal trede = Inr m"
  shows "\<exists>c c1. page salaryData schaal trede uren = Inr c
           \<and> (uren = 36 \<longrightarrow> scaleFactor c = 12
                 \<and> scaledTo5Day c = Some (totalCompensation c * 1.25))
           \<and> (uren \<noteq> 36 \<longrightarrow> scaledTo5Day c = None)
           \<and> page_v1 salaryData schaal trede = Inr c1
           \<and> totalCompensation5Day c1 = totalCompensation_v1 c1 * 1.25"
proof -
  let ?c = "calculation schaal trede uren m"
  let ?c1 = "calculation_v1 schaal trede m"
  have shown: "page salaryData schaal trede uren = Inr ?c"
    using assms by (rule page_found)
  have shown1: "page_v1 salaryData schaal trede = Inr ?c1"
    using assms by (rule page_v1_found)
  have at36: "scaleFactor ?c = 12 \<and> scaledTo5Day ?c = Some (totalCompensation ?c * 1.25)"
    if "uren = 36"
    using that by (simp add: scaledTo5Day_def calc_inputs calc_scaleFactor)
  have elsewhere: "scaledTo5Day ?c = None" if "uren \<noteq> 36"
    using that by (simp add: scaledTo5Day_def calc_inputs)
  have always1: "totalCompensation5Day ?c1 = totalCompensation_v1 ?c1 * 1.25"
    by (simp add: calc_v1_5day)
  from shown shown1 at36 elsewhere always1 show ?thesis
    by blast
qed

theorem five_day_equivalent_witness:
  "getMonthlyCompensation scenarioTable 11 5 = Inr 4000
   \<and> (\<exists>c. page scenarioTable 11 5 36 = Inr c
          \<and> scaleFactor c = 12 \<and> totalCompensation c = 64992
          \<and> scaledTo5Day c = Some 81240)
   \<and> (\<exists>c. page scenarioTable 11 5 40 = Inr c \<and> scaledTo5Day c = None)"
proof -
  obtain c where c: "page scenarioTable 11 5 36 = Inr c" "scaleFactor c = 12"
      "scaledTo5Day c = Some (totalCompensation c * 1.25)"
    using five_day_equivalent_only_at_36 [OF scenario_lookup, of 36] by auto
  have "c = calculation 11 5 36 4000"
    using c(1) page_found [OF scenario_lookup, of 36] by simp
  then have total: "totalCompensation c = 64992"
    by (simp add: calc_total_closed)
  obtain d where d: "page scenarioTable 11 5 40 = Inr d" "scaledTo5Day d = None"
    using five_day_equivalent_only_at_36 [OF scenario_lookup, of 40] by auto
  from c total d scenario_lookup show ?thesis
    by auto
qed

section \<open>The concrete scenario\<close>

text \<open>
  C5 (as amended). With a monthly amount of 4000 at scale 11, step 5, and 36 contracted
  hours, the scale factor is 12, the yearly gross salary 48000, the employee's pension
  contribution 3888, the individual choice budget 7920, the employer's pension
  contribution 9072 and the total compensation 64992.
\<close>

theorem scenario_values:
  assumes "getMonthlyCompensation salaryData 11 5 = Inr 4000"
  shows "\<exists>c. page salaryData 11 5 36 = Inr c
           \<and> scaleFactor c = 12
           \<and> yearlyPreTaxSalary c = 48000
           \<and> individualPensionContribution c = 3888
           \<and> ikbBudget c = 7920
           \<and> pensoenEmployer c = 9072
           \<and> totalCompensation c = 64992"
proof -
  let ?c = "calculation 11 5 36 4000"
  have shown: "page salaryData 11 5 36 = Inr ?c"
    using assms by (rule page_found)
  have "scaleFactor ?c = 12"
    by (simp add: calc_scaleFactor)
  moreover have "yearlyPreTaxSalary ?c = 48000"
    by (simp add: calc_yearly)
  moreover have "individualPensionContribution ?c = 3888"
    by (simp add: calc_employee)
  moreover have "ikbBudget ?c = 7920"
    by (simp add: calc_ikb)
  moreover have "pensoenEmployer ?c = 9072"
    by (simp add: calc_employer)
  moreover have "totalCompensation ?c = 64992"
    by (simp add: calc_total_closed)
  ultimately show ?thesis
    using shown by blast
qed

theorem scenario_values_witness:
  "getMonthlyCompensation scenarioTable 11 5 = Inr 4000
   \<and> (\<exists>c. page scenarioTable 11 5 36 = Inr c
          \<and> pensoenEmployer c = 9072
          \<and> totalCompensation c = 64992)"
  using scenario_values [OF scenario_lookup] scenario_lookup
  by blast

text \<open>
  The figures 7488 for the employer's contribution and 63408 for the total are not what
  the page computes in this scenario.
\<close>

theorem scenario_values_counterexample:
  "page scenarioTable 11 5 36 = Inr (calculation 11 5 36 4000)
   \<and> pensoenEmployer (calculation 11 5 36 4000) = 9072
   \<and> pensoenEmployer (calculation 11 5 36 4000) \<noteq> 7488
   \<and> totalCompensation (calculation 11 5 36 4000) = 64992
   \<and> totalCompensation (calculation 11 5 36 4000) \<noteq> 63408"
  by (simp add: page_found [OF scenario_lookup] calc_employer calc_total_closed)

section \<open>Benefits never reduce the total\<close>

text \<open>
  C7. For every (scale, step) pair of the table with a non-negative monthly amount and
  every positive number of contracted hours, the total compensation is at least the
  yearly gross salary: what is added on top of it, the individual choice budget and the
  employer's pension contribution, is not negative.
\<close>

theorem total_at_least_yearly_gross:
  assumes "getMonthlyCompensation salaryData schaal trede = Inr m"
    and "0 \<le> m" and "0 < uren"
  shows "\<exists>c. page salaryData schaal trede uren = Inr c
           \<and> totalCompensation c - yearlyPreTaxSalary c = ikbBudget c + pensoenEmployer c
           \<and> 0 \<le> ikbBudget c + pensoenEmployer c
           \<and> yearlyPreTaxSalary c \<le> totalCompensation c"
proof -
  let ?c = "calculation schaal trede uren m"
  have shown: "page salaryData schaal trede uren = Inr ?c"
    using assms(1) by (rule page_found)
  have added: "totalCompensation ?c - yearlyPreTaxSalary ?c = ikbBudget ?c + pensoenEmployer ?c"
    unfolding calc_total calc_pretax calc_pension by simp
  have factor: "0 \<le> 12 * (uren / 36)"
    using assms(3) by simp
  have "0 \<le> ikbBudget ?c"
    unfolding calc_ikb using assms(2) factor by (intro mult_nonneg_nonneg) simp_all
  moreover have "0 \<le> pensoenEmployer ?c"
    unfolding calc_employer using assms(2) factor by (intro mult_nonneg_nonneg) simp_all
  ultimately have nonneg: "0 \<le> ikbBudget ?c + pensoenEmployer ?c"
    by simp
  with added have "yearlyPreTaxSalary ?c \<le> totalCompensation ?c"
    by linarith
  with shown added nonneg show ?thesis
    by blast
qed

theorem total_at_least_yearly_gross_witness:
  "getMonthlyCompensation scenarioTable 11 5 = Inr 4000 \<and> (0::number) \<le> 4000 \<and> (0::number) < 38
   \<and> (\<exists>c. page scenarioTable 11 5 38 = Inr c
          \<and> yearlyPreTaxSalary c \<le> totalCompensation c)"
proof -
  have base: "(0::number) \<le> 4000" and hours: "(0::number) < 38"
    by simp_all
  from total_at_least_yearly_gross [OF scenario_lookup base hours] scenario_lookup base hours
  show ?thesis
    by blast
qed

section \<open>The note on high incomes\<close>

text \<open>
  C8. For every (scale, step) pair of the table and every number of hours, the page shows
  the note on high incomes exactly when the yearly gross salary plus the individual
  choice budget exceeds 130000: above the threshold it shows, at the threshold and below
  it does not. The amounts are the same expressions of the monthly amount and the hours
  whether the note is shown or not.
\<close>

theorem high_income_note_iff_above_130000:
  assumes "getMonthlyCompensation salaryData schaal trede = Inr m"
  shows "\<exists>c. page salaryData schaal trede uren = Inr c
           \<and> warningNote c = (130000 < yearlyPreTaxSalary c + ikbBudget c)
           \<and> yearlyPreTaxSalary c = m * (12 * (uren / 36))
           \<and> ikbBudget c = (m * 0.165) * (12 * (uren / 36))
           \<and> individualPensionContribution c = (m * 0.081) * (12 * (uren / 36))
           \<and> pensoenEmployer c = (m * (0.27 - 0.081)) * (12 * (uren / 36))
           \<and> totalCompensation c = 1.354 * (m * (12 * (uren / 36)))"
proof -
  let ?c = "calculation schaal trede uren m"
  have shown: "page salaryData schaal trede uren = Inr ?c"
    using assms by (rule page_found)
  have shown_note: "warningNote ?c = (130000 < yearlyPreTaxSalary ?c + ikbBudget ?c)"
    by (simp add: warningNote_def)
  from shown shown_note calc_yearly [of schaal trede uren m] calc_ikb [of schaal trede uren m]
    calc_employee [of schaal trede uren m] calc_employer [of schaal trede uren m]
    calc_total_closed [of schaal trede uren m]
  show ?thesis
    by blast
qed

lemma single_entry_lookup: "getMonthlyCompensation [s \<mapsto> [t \<mapsto> m]] s t = Inr m"
  by (simp add: getMonthlyCompensation_def)

theorem high_income_note_witness:
  "(\<exists>c. page [16 \<mapsto> [10 \<mapsto> 6500000 / 699]] 16 10 36 = Inr c
        \<and> yearlyPreTaxSalary c + ikbBudget c = 130000 \<and> \<not> warningNote c)
   \<and> (\<exists>c. page [16 \<mapsto> [10 \<mapsto> 9299]] 16 10 36 = Inr c
        \<and> yearlyPreTaxSalary c + ikbBudget c = 130000 + 1 / 50 \<and> warningNote c)
   \<and> (\<exists>c. page [16 \<mapsto> [10 \<mapsto> 9298]] 16 10 36 = Inr c
        \<and> yearlyPreTaxSalary c + ikbBudget c = 129986 + 1 / 25 \<and> \<not> warningNote c)"
proof -
  have at: "\<exists>c. page [16 \<mapsto> [10 \<mapsto> 6500000 / 699]] 16 10 36 = Inr c
        \<and> yearlyPreTaxSalary c + ikbBudget c = 130000 \<and> \<not> warningNote c"
    using high_income_note_iff_above_130000 [OF single_entry_lookup, of 16 10 "6500000 / 699" 36]
    by auto
  have above: "\<exists>c. page [16 \<mapsto> [10 \<mapsto> 9299]] 16 10 36 = Inr c
        \<and> yearlyPreTaxSalary c + ikbBudget c = 130000 + 1 / 50 \<and> warningNote c"
    using high_income_note_iff_above_130000 [OF single_entry_lookup, of 16 10 9299 36]
    by auto
  have below: "\<exists>c. page [16 \<mapsto> [10 \<mapsto> 9298]] 16 10 36 = Inr c
        \<and> yearlyPreTaxSalary c + ikbBudget c = 129986 + 1 / 25 \<and> \<not> warningNote c"
    using high_income_note_iff_above_130000 [OF single_entry_lookup, of 16 10 9298 36]
    by auto
  from at above below show ?thesis
    by blast
qed

section \<open>Pairs that are not in the table\<close>

lemma lookup_fails_only_when_absent:
  "getMonthlyCompensation salaryData schaal trede = Inl e \<Longrightarrow>
   salaryData schaal = None
   \<or> (\<exists>tredes. salaryData schaal = Some tredes \<and> tredes trede = None)"
  by (auto simp add: getMonthlyCompensation_def split: option.splits)

text \<open>
  C9. For every (scale, step) pair that is absent from the salary table (the scale has no
  entry, or it has one without the step), the lookup of the monthly amount fails with
  \<open>NotFound\<close> and returns no amount, neither a default nor zero; the page fails the
  same way. \<open>NotFound\<close> is the only error there is.
\<close>

theorem absent_pair_is_NotFound:
  assumes "salaryData schaal = None
           \<or> (\<exists>tredes. salaryData schaal = Some tredes \<and> tredes trede = None)"
  shows "getMonthlyCompensation salaryData schaal trede = Inl NotFound
         \<and> (\<forall>amount. getMonthlyCompensation salaryData schaal trede \<noteq> Inr amount)
         \<and> page salaryData schaal trede uren = Inl NotFound
         \<and> (\<forall>e :: error. e = NotFound)"
proof -
  from assms have fails: "getMonthlyCompensation salaryData schaal trede = Inl NotFound"
  proof
    assume "salaryData schaal = None"
    then show ?thesis
      by (simp add: getMonthlyCompensation_def)
  next
    assume "\<exists>tredes. salaryData schaal = Some tredes \<and> tredes trede = None"
    then obtain tredes where "salaryData schaal = Some tredes" and "tredes trede = None"
      by blast
    then show ?thesis
      by (simp add: getMonthlyCompensation_def)
  qed
  then have no_amount: "\<forall>amount. getMonthlyCompensation salaryData schaal trede \<noteq> Inr amount"
    by simp
  from fails have page_fails: "page salaryData schaal trede uren = Inl NotFound"
    by (simp add: page_def)
  have only: "\<forall>e :: error. e = NotFound"
  proof
    fix e :: error
    show "e = NotFound"
      by (cases e)
  qed
  from fails no_amount page_fails only show ?thesis
    by blast
qed

theorem absent_pair_witness:
  "scenarioTable 12 = None
   \<and> getMonthlyCompensation scenarioTable 12 5 = Inl NotFound
   \<and> getMonthlyCompensation scenarioTable 12 5 \<noteq> Inr 0
   \<and> scenarioTable 11 = Some [5 \<mapsto> 4000] \<and> [5 \<mapsto> 4000 :: number] (6 :: int) = None
   \<and> getMonthlyCompensation scenarioTable 11 6 = Inl NotFound
   \<and> page scenarioTable 11 6 36 = Inl NotFound"
proof -
  have no_scale: "scenarioTable 12 = None"
    by (simp add: scenarioTable_def)
  have scale: "scenarioTable 11 = Some [5 \<mapsto> 4000]"
    by (simp add: scenarioTable_def)
  have no_step: "[5 \<mapsto> 4000 :: number] (6 :: int) = None"
    by simp
  have first: "scenarioTable 12 = None
      \<or> (\<exists>tredes. scenarioTable 12 = Some tredes \<and> tredes 5 = None)"
    using no_scale by blast
  have second: "scenarioTable 11 = None
      \<or> (\<exists>tredes. scenarioTable 11 = Some tredes \<and> tredes 6 = None)"
    using scale no_step by blast
  from absent_pair_is_NotFound [of scenarioTable 12 5 36, OF first]
    absent_pair_is_NotFound [of scenarioTable 11 6 36, OF second]
    no_scale scale no_step
  show ?thesis
    by simp
qed

section \<open>Identities of exact arithmetic\<close>

text \<open>
  With exact operators the total pension is 27 percent of the yearly gross salary, the
  yearly gross salary is linear in the hours, and the two pages have the same total at 36
  hours. Each of the three needs a law that rounded operators do not obey; what the
  doubles of the script satisfy instead is shown in the sections that follow.
\<close>

lemma exact_pension_share: "pension (calculation s t h m) = 0.27 * (m * (12 * (h / 36)))"
  unfolding calc_pension calc_employee calc_employer
  by (simp add: algebra_simps)

lemma exact_yearly_linear:
  "yearlyPreTaxSalary (calculation s t h m) = yearlyPreTaxSalary (calculation s t 36 m) * (h / 36)"
  by (simp add: calc_yearly)

lemma exact_totals_agree:
  "totalCompensation_v1 (calculation_v1 s t m) = totalCompensation (calculation s t 36 m)"
  by (simp add: calc_v1_total calc_total_closed algebra_simps)

section \<open>Rounding to the nearest double\<close>

text \<open>
  What \<open>double\<close> is: a multiple of the unit in the last place with a significand of at
  most 53 bits, no farther from its argument than any other such multiple, and so within
  a relative \<open>2 ^ - 53\<close> of it. The literals of the source are evaluated once.
\<close>

lemma nearest_even_error: "\<bar>of_int (nearest_even y) - y\<bar> \<le> 1 / 2"
proof -
  have "of_int \<lfloor>y\<rfloor> \<le> y" "y < of_int \<lfloor>y\<rfloor> + 1"
    by linarith+
  then show ?thesis
    by (auto simp add: nearest_even_def Let_def)
qed

lemma bitlen_powi:
  assumes "0 < (n::int)"
  shows "(2::rat) powi (bitlen n - 1) \<le> of_int n" and "of_int n < (2::rat) powi bitlen n"
proof -
  from bitlen_bounds [OF assms] have lo: "2 ^ nat (bitlen n - 1) \<le> n" and hi: "n < 2 ^ nat (bitlen n)"
    by simp_all
  have pos: "1 \<le> bitlen n"
    using assms bitlen_eq_zero_iff [of n] bitlen_nonneg [of n] by linarith
  have "(2::rat) powi (bitlen n - 1) = 2 ^ nat (bitlen n - 1)"
    using pos by (simp add: power_int_nonneg_exp)
  also have "\<dots> = of_int (2 ^ nat (bitlen n - 1))"
    by simp
  also have "\<dots> \<le> of_int n"
    using lo by (simp only: of_int_le_iff)
  finally show "(2::rat) powi (bitlen n - 1) \<le> of_int n" .
  have "of_int n < (of_int (2 ^ nat (bitlen n)) :: rat)"
    using hi by (simp only: of_int_less_iff)
  also have "\<dots> = 2 ^ nat (bitlen n)"
    by simp
  also have "\<dots> = (2::rat) powi bitlen n"
    using pos by (simp add: power_int_nonneg_exp)
  finally show "of_int n < (2::rat) powi bitlen n" .
qed

lemma exponent_bounds:
  assumes "x \<noteq> 0"
  shows "2 powi exponent x \<le> \<bar>x\<bar>" and "\<bar>x\<bar> < 2 powi (exponent x + 1)"
proof -
  obtain p q where pq: "quotient_of \<bar>x\<bar> = (p, q)"
    by (cases "quotient_of \<bar>x\<bar>")
  then have q: "0 < q" and x: "\<bar>x\<bar> = of_int p / of_int q"
    by (simp_all add: quotient_of_denom_pos quotient_of_div)
  have p: "0 < p"
  proof -
    have "0 < \<bar>x\<bar>"
      using assms by simp
    then have "(0::rat) < of_int p / of_int q"
      by (simp only: x)
    then show ?thesis
      using q by (simp add: zero_less_divide_iff)
  qed
  let ?e = "bitlen p - bitlen q"
  have ex: "exponent x = (if 2 powi ?e \<le> \<bar>x\<bar> then ?e else ?e - 1)"
    by (simp add: exponent_def pq)
  have qpos: "(0::rat) < of_int q"
    using q by simp
  have lower: "2 powi (?e - 1) \<le> \<bar>x\<bar>"
  proof -
    have "(2::rat) powi (?e - 1) * of_int q \<le> 2 powi (?e - 1) * 2 powi bitlen q"
      using bitlen_powi(2) [OF q] by (intro mult_left_mono) simp_all
    also have "\<dots> = 2 powi (bitlen p - 1)"
      by (simp add: power_int_add [symmetric])
    also have "\<dots> \<le> of_int p"
      by (rule bitlen_powi(1) [OF p])
    finally show ?thesis
      using qpos by (simp add: x pos_le_divide_eq)
  qed
  have upper: "\<bar>x\<bar> < 2 powi (?e + 1)"
  proof -
    have "of_int p < (2::rat) powi bitlen p"
      by (rule bitlen_powi(2) [OF p])
    also have "\<dots> = 2 powi (?e + 1) * 2 powi (bitlen q - 1)"
      by (simp add: power_int_add [symmetric])
    also have "\<dots> \<le> 2 powi (?e + 1) * of_int q"
      using bitlen_powi(1) [OF q] by (intro mult_left_mono) simp_all
    finally show ?thesis
      using qpos by (simp add: x pos_divide_less_eq)
  qed
  show "2 powi exponent x \<le> \<bar>x\<bar>"
    using lower by (simp add: ex)
  show "\<bar>x\<bar> < 2 powi (exponent x + 1)"
    using upper by (auto simp add: ex not_le)
qed

lemma double_error: "\<bar>double x - x\<bar> \<le> \<bar>x\<bar> / 2 ^ 53"
proof (cases "x = 0")
  case True
  then show ?thesis by (simp add: double_def)
next
  case False
  define ulp :: rat where "ulp = 2 powi (exponent x - 52)"
  have ulp_pos: "0 < ulp"
    by (simp add: ulp_def)
  have ulp_eq: "ulp = 2 powi exponent x / 2 ^ 52"
    by (simp add: ulp_def power_int_diff)
  have "double x - x = (of_int (nearest_even (x / ulp)) - x / ulp) * ulp"
    using False ulp_pos by (simp add: double_def ulp_def [symmetric] algebra_simps)
  then have "\<bar>double x - x\<bar> = \<bar>of_int (nearest_even (x / ulp)) - x / ulp\<bar> * ulp"
    using ulp_pos by (simp add: abs_mult)
  also have "\<dots> \<le> 1 / 2 * ulp"
    using nearest_even_error [of "x / ulp"] ulp_pos by (intro mult_right_mono) simp_all
  also have "\<dots> = 2 powi exponent x / 2 ^ 53"
    by (simp add: ulp_eq)
  also have "\<dots> \<le> \<bar>x\<bar> / 2 ^ 53"
    using exponent_bounds(1) [OF False] by (simp add: divide_right_mono)
  finally show ?thesis .
qed

lemma nearest_even_nearest: "\<bar>of_int (nearest_even y) - y\<bar> \<le> \<bar>of_int k - y\<bar>"
proof -
  have fl: "of_int \<lfloor>y\<rfloor> \<le> y" "y < of_int \<lfloor>y\<rfloor> + 1"
    by linarith+
  consider "k \<le> \<lfloor>y\<rfloor>" | "\<lfloor>y\<rfloor> + 1 \<le> k"
    by linarith
  then show ?thesis
  proof cases
    case 1
    then have "(of_int k :: rat) \<le> of_int \<lfloor>y\<rfloor>"
      by (simp only: of_int_le_iff)
    with fl show ?thesis
      by (auto simp add: nearest_even_def Let_def)
  next
    case 2
    then have "(of_int \<lfloor>y\<rfloor> :: rat) + 1 \<le> of_int k"
      by (metis of_int_1 of_int_add of_int_le_iff)
    with fl show ?thesis
      by (auto simp add: nearest_even_def Let_def)
  qed
qed

lemma double_nearest:
  assumes "x \<noteq> 0"
  shows "\<bar>double x - x\<bar> \<le> \<bar>of_int k * 2 powi (exponent x - 52) - x\<bar>"
proof -
  define ulp :: rat where "ulp = 2 powi (exponent x - 52)"
  have ulp_pos: "0 < ulp"
    by (simp add: ulp_def)
  have "double x - x = (of_int (nearest_even (x / ulp)) - x / ulp) * ulp"
    using assms ulp_pos by (simp add: double_def ulp_def [symmetric] algebra_simps)
  then have "\<bar>double x - x\<bar> = \<bar>of_int (nearest_even (x / ulp)) - x / ulp\<bar> * ulp"
    using ulp_pos by (simp add: abs_mult)
  also have "\<dots> \<le> \<bar>of_int k - x / ulp\<bar> * ulp"
    using nearest_even_nearest [of "x / ulp" k] ulp_pos by (intro mult_right_mono) simp_all
  also have "\<dots> = \<bar>(of_int k - x / ulp) * ulp\<bar>"
    using ulp_pos by (simp add: abs_mult)
  also have "(of_int k - x / ulp) * ulp = of_int k * ulp - x"
    using ulp_pos by (simp add: algebra_simps)
  finally show ?thesis
    by (simp only: ulp_def)
qed

lemma double_significand:
  assumes "x \<noteq> 0"
  shows "\<exists>n. double x = of_int n * 2 powi (exponent x - 52) \<and> \<bar>n\<bar> \<le> 2 ^ 53"
proof -
  define ulp :: rat where "ulp = 2 powi (exponent x - 52)"
  define n where "n = nearest_even (x / ulp)"
  have ulp_pos: "0 < ulp"
    by (simp add: ulp_def)
  have "2 powi (exponent x + 1) = ulp * 2 ^ 53"
    by (simp add: ulp_def power_int_diff power_int_add)
  with exponent_bounds(2) [OF assms] have "\<bar>x\<bar> < ulp * 2 ^ 53"
    by simp
  then have "\<bar>x / ulp\<bar> < 2 ^ 53"
    using ulp_pos by (simp add: abs_divide pos_divide_less_eq mult.commute)
  moreover have "\<bar>of_int n - x / ulp\<bar> \<le> 1 / 2"
    unfolding n_def by (rule nearest_even_error)
  ultimately have "\<bar>(of_int n :: rat)\<bar> < 2 ^ 53 + 1"
    by linarith
  then have "(of_int \<bar>n\<bar> :: rat) < of_int (2 ^ 53 + 1)"
    by simp
  then have "\<bar>n\<bar> < 2 ^ 53 + 1"
    by (simp only: of_int_less_iff)
  then have "\<bar>n\<bar> \<le> 2 ^ 53"
    by simp
  moreover have "double x = of_int n * ulp"
    using assms by (simp add: double_def n_def ulp_def Let_def)
  ultimately show ?thesis
    unfolding ulp_def by blast
qed

lemma double_literals:
  "double 0.081 = 5836665117072163 / 2 ^ 56"
  "double 0.165 = 5944751508129055 / 2 ^ 55"
  "double 0.27 = 607985949695017 / 2 ^ 51"
  "double 0.919 = 2069404028776743 / 2 ^ 51"
  "sub64 (double 0.27) (double 0.081) = 3404721318292095 / 2 ^ 54"
  "double 12 = 12" "double 36 = 36" "double 130000 = 130000" "div64 5 4 = 5 / 4"
  by code_simp+

lemma round_lo_nonneg: "0 \<le> round_lo"
  by (simp add: round_lo_def)

lemma round_hi_nonneg: "0 \<le> round_hi"
  by (simp add: round_hi_def)

lemma double_nonneg_bounds:
  assumes "0 \<le> x"
  shows "x * round_lo \<le> double x" and "double x \<le> x * round_hi"
proof -
  from double_error [of x] assms have "\<bar>double x - x\<bar> \<le> x / 2 ^ 53"
    by simp
  then have "x - x / 2 ^ 53 \<le> double x" and "double x \<le> x + x / 2 ^ 53"
    by linarith+
  then show "x * round_lo \<le> double x" and "double x \<le> x * round_hi"
    by (simp_all add: round_lo_def round_hi_def algebra_simps)
qed

lemma enclosed_double:
  assumes "enclosed g l h x" and "0 \<le> g" and "0 \<le> l"
  shows "enclosed g (l * round_lo) (h * round_hi) (double x)"
proof -
  from assms have x: "g * l \<le> x" "x \<le> g * h" and nonneg: "0 \<le> x"
    by (auto simp add: enclosed_def intro: order_trans [OF mult_nonneg_nonneg])
  have "g * (l * round_lo) = (g * l) * round_lo"
    by simp
  also have "\<dots> \<le> x * round_lo"
    using x(1) round_lo_nonneg by (rule mult_right_mono)
  also have "\<dots> \<le> double x"
    by (rule double_nonneg_bounds(1) [OF nonneg])
  finally have lower: "g * (l * round_lo) \<le> double x" .
  have "double x \<le> x * round_hi"
    by (rule double_nonneg_bounds(2) [OF nonneg])
  also have "\<dots> \<le> (g * h) * round_hi"
    using x(2) round_hi_nonneg by (rule mult_right_mono)
  finally have "double x \<le> g * (h * round_hi)"
    by (simp add: mult.assoc)
  with lower show ?thesis
    by (simp add: enclosed_def)
qed

lemma enclosed_exact: "enclosed g 1 1 g"
  by (simp add: enclosed_def)

lemma enclosed_times:
  assumes "enclosed a l1 h1 x" and "enclosed b l2 h2 y"
    and "0 \<le> a" and "0 \<le> b" and "0 \<le> l1" and "0 \<le> l2"
  shows "enclosed (a * b) (l1 * l2) (h1 * h2) (x * y)"
proof -
  from assms have x: "a * l1 \<le> x" "x \<le> a * h1" and y: "b * l2 \<le> y" "y \<le> b * h2"
    by (simp_all add: enclosed_def)
  have al: "0 \<le> a * l1" and bl: "0 \<le> b * l2"
    using assms by simp_all
  have x0: "0 \<le> x" and y0: "0 \<le> y"
    using al x(1) bl y(1) by linarith+
  have "(a * l1) * (b * l2) \<le> x * y"
    using x(1) y(1) al bl x0 by (intro mult_mono) simp_all
  moreover have "x * y \<le> (a * h1) * (b * h2)"
    using x(2) y(2) x0 y0 by (intro mult_mono; linarith)
  ultimately show ?thesis
    by (simp add: enclosed_def mult_ac)
qed

lemma enclosed_plus:
  assumes "enclosed g l1 h1 x" and "enclosed g l2 h2 y"
  shows "enclosed g (l1 + l2) (h1 + h2) (x + y)"
  using assms by (simp add: enclosed_def algebra_simps)

lemma enclosed_minus:
  assumes "enclosed g l1 h1 x" and "enclosed g l2 h2 y"
  shows "enclosed g (l1 - h2) (h1 - l2) (x - y)"
  using assms by (simp add: enclosed_def algebra_simps)

lemma enclosed_widen:
  assumes "enclosed g l h x" and "0 \<le> g" and "l' \<le> l" and "h \<le> h'"
  shows "enclosed g l' h' x"
proof -
  from assms have "g * l' \<le> g * l" and "g * h \<le> g * h'"
    by (simp_all add: mult_left_mono)
  with assms(1) show ?thesis
    by (simp add: enclosed_def)
qed

lemma enclosed_mul64:
  assumes "enclosed a l1 h1 x" and "enclosed b l2 h2 y"
    and "0 \<le> a" and "0 \<le> b" and "0 \<le> l1" and "0 \<le> l2"
  shows "enclosed (a * b) (l1 * l2 * round_lo) (h1 * h2 * round_hi) (mul64 x y)"
  unfolding mul64_def
  using enclosed_times [OF assms] assms(3-6) by (intro enclosed_double) simp_all

lemma enclosed_add64:
assumes "enclosed g l1 h1 x" and "enclosed g l2 h2 y" and "0 \<le> g" and "0 \<le> l1 + l2"
  shows "enclosed g ((l1 + l2) * round_lo) ((h1 + h2) * round_hi) (add64 x y)"
  unfolding add64_def
  using enclosed_plus [OF assms(1,2)] assms(3,4) by (rule enclosed_double)

lemma enclosed_sub64:
  assumes "enclosed g l1 h1 x" and "enclosed g l2 h2 y" and "0 \<le> g" and "0 \<le> l1 - h2"
  shows "enclosed g ((l1 - h2) * round_lo) ((h1 - l2) * round_hi) (sub64 x y)"
  unfolding sub64_def
  using enclosed_minus [OF assms(1,2)] assms(3,4) by (rule enclosed_double)

lemma enclosed_error:
  assumes "enclosed g l h x" and "0 \<le> g" and "c * (1 - e) \<le> l" and "h \<le> c * (1 + e)"
  shows "\<bar>x - c * g\<bar> \<le> c * g * e"
proof -
  from assms(1) have x: "g * l \<le> x" "x \<le> g * h"
    by (simp_all add: enclosed_def)
  have "g * (c * (1 - e)) \<le> g * l" and "g * h \<le> g * (c * (1 + e))"
    using assms(2-4) by (simp_all add: mult_left_mono)
  with x have "g * (c * (1 - e)) \<le> x" and "x \<le> g * (c * (1 + e))"
    by linarith+
  then show ?thesis
    by (simp add: abs_le_iff algebra_simps)
qed


section \<open>The fields of the calculation on doubles\<close>

lemma page_double_found:
  "getMonthlyCompensation salaryData schaal trede = Inr m \<Longrightarrow>
   page_double salaryData schaal trede uren = Inr (calculation_double schaal trede uren m)"
  by (simp add: page_double_def)

lemma dcalc_scaleFactor: "scaleFactor (calculation_double s t h m) = mul64 12 (div64 h 36)"
  by (simp add: calculation_double_def Let_def)

lemma dcalc_yearly:
  "yearlyPreTaxSalary (calculation_double s t h m) = mul64 m (mul64 12 (div64 h 36))"
  by (simp add: calculation_double_def Let_def)

lemma dcalc_employee:
  "individualPensionContribution (calculation_double s t h m) =
     mul64 (mul64 m (double 0.081)) (mul64 12 (div64 h 36))"
  by (simp add: calculation_double_def Let_def)

lemma dcalc_ikb:
  "ikbBudget (calculation_double s t h m) = mul64 (mul64 m (double 0.165)) (mul64 12 (div64 h 36))"
  by (simp add: calculation_double_def Let_def)

lemma dcalc_employer:
  "pensoenEmployer (calculation_double s t h m) =
     mul64 (mul64 m (sub64 (double 0.27) (double 0.081))) (mul64 12 (div64 h 36))"
  by (simp add: calculation_double_def Let_def)

lemma dcalc_pretax:
  "pretaxSalaryInclBenefits (calculation_double s t h m) =
     sub64 (add64 (yearlyPreTaxSalary (calculation_double s t h m))
                  (ikbBudget (calculation_double s t h m)))
           (individualPensionContribution (calculation_double s t h m))"
  by (simp add: calculation_double_def Let_def)

lemma dcalc_pension:
  "pension (calculation_double s t h m) =
     add64 (individualPensionContribution (calculation_double s t h m))
           (pensoenEmployer (calculation_double s t h m))"
  by (simp add: calculation_double_def Let_def)

lemma dcalc_total:
  "totalCompensation (calculation_double s t h m) =
     add64 (pretaxSalaryInclBenefits (calculation_double s t h m))
           (pension (calculation_double s t h m))"
  by (simp add: calculation_double_def Let_def)


text \<open>
  How far each field is from the exact amount it stands for. The exponent of \<open>round_lo\<close>
  and \<open>round_hi\<close> counts the roundings on the way, generously where a difference is taken.
\<close>

lemma enclosed_literal:
  assumes "0 \<le> c"
  shows "enclosed 1 (c * round_lo) (c * round_hi) (double c)"
  using enclosed_double [of 1 c c c] assms by (simp add: enclosed_def)

lemma enclosed_div64:
  assumes "0 \<le> h"
  shows "enclosed (h / 36) round_lo round_hi (div64 h 36)"
  using enclosed_double [OF enclosed_exact [of "h / 36"]] assms by (simp add: div64_def)

lemma enclosed_scaleFactor:
  assumes "0 \<le> h"
  shows "enclosed (12 * (h / 36)) (round_lo ^ 2) (round_hi ^ 2) (mul64 12 (div64 h 36))"
proof -
  have "enclosed (12 * (h / 36)) (1 * round_lo * round_lo) (1 * round_hi * round_hi)
      (mul64 12 (div64 h 36))"
    using assms round_lo_nonneg
    by (intro enclosed_mul64 [OF enclosed_exact enclosed_div64]) simp_all
  then show ?thesis
    by (simp only: power2_eq_square mult_1)
qed

lemma enclosed_share:
  assumes "0 \<le> m" and "0 \<le> h" and "enclosed 1 l u k" and "0 \<le> l"
  shows "enclosed (m * (12 * (h / 36))) (l * round_lo ^ 4) (u * round_hi ^ 4)
           (mul64 (mul64 m k) (mul64 12 (div64 h 36)))"
proof -
  have "enclosed (m * 1) (1 * l * round_lo) (1 * u * round_hi) (mul64 m k)"
    using assms by (intro enclosed_mul64 [OF enclosed_exact assms(3)]) simp_all
  then have inner: "enclosed m (l * round_lo) (u * round_hi) (mul64 m k)"
    by (simp only: mult_1 mult_1_right)
  have "enclosed (m * (12 * (h / 36))) ((l * round_lo) * round_lo ^ 2 * round_lo)
      ((u * round_hi) * round_hi ^ 2 * round_hi) (mul64 (mul64 m k) (mul64 12 (div64 h 36)))"
    using assms round_lo_nonneg
    by (intro enclosed_mul64 [OF inner enclosed_scaleFactor]) simp_all
  moreover have "(l * round_lo) * round_lo ^ 2 * round_lo = l * round_lo ^ 4"
    and "(u * round_hi) * round_hi ^ 2 * round_hi = u * round_hi ^ 4"
    by (simp_all add: power2_eq_square power4_eq_xxxx)
  ultimately show ?thesis
    by (simp only:)
qed

lemma enclosed_yearly:
  assumes "0 \<le> m" and "0 \<le> h"
  shows "enclosed (m * (12 * (h / 36))) (round_lo ^ 3) (round_hi ^ 3)
           (mul64 m (mul64 12 (div64 h 36)))"
proof -
  have "enclosed (m * (12 * (h / 36))) (1 * round_lo ^ 2 * round_lo) (1 * round_hi ^ 2 * round_hi)
      (mul64 m (mul64 12 (div64 h 36)))"
    using assms
    by (intro enclosed_mul64 [OF enclosed_exact enclosed_scaleFactor]) simp_all
  moreover have "1 * round_lo ^ 2 * round_lo = round_lo ^ 3"
    and "1 * round_hi ^ 2 * round_hi = round_hi ^ 3"
    by (simp_all add: power2_eq_square power3_eq_cube)
  ultimately show ?thesis
    by (simp only:)
qed

lemma enclosed_employer_share:
  "enclosed 1 (0.189 * round_lo ^ 3) (0.189 * round_hi ^ 3) (sub64 (double 0.27) (double 0.081))"
proof -
  have "enclosed 1 (0.27 * round_lo - 0.081 * round_hi) (0.27 * round_hi - 0.081 * round_lo)
      (double 0.27 - double 0.081)"
    by (intro enclosed_minus enclosed_literal) simp_all
  then have "enclosed 1 ((0.27 * round_lo - 0.081 * round_hi) * round_lo)
      ((0.27 * round_hi - 0.081 * round_lo) * round_hi) (sub64 (double 0.27) (double 0.081))"
    unfolding sub64_def
    by (rule enclosed_double) (simp_all add: round_lo_def round_hi_def)
  then show ?thesis
    by (rule enclosed_widen) (simp_all add: round_lo_def round_hi_def divide_simps)
qed

lemma enclosed_literal_share:
  assumes "0 \<le> m" and "0 \<le> h" and "0 \<le> c"
  shows "enclosed (m * (12 * (h / 36))) (c * round_lo ^ 5) (c * round_hi ^ 5)
           (mul64 (mul64 m (double c)) (mul64 12 (div64 h 36)))"
proof -
  have "enclosed (m * (12 * (h / 36))) (c * round_lo * round_lo ^ 4) (c * round_hi * round_hi ^ 4)
      (mul64 (mul64 m (double c)) (mul64 12 (div64 h 36)))"
    using assms round_lo_nonneg
    by (intro enclosed_share [OF assms(1,2) enclosed_literal]) simp_all
  moreover have "c * round_lo * round_lo ^ 4 = c * round_lo ^ 5"
    and "c * round_hi * round_hi ^ 4 = c * round_hi ^ 5"
    by (simp_all add: eval_nat_numeral)
  ultimately show ?thesis
    by (simp only:)
qed

lemma enclosed_employer:
  assumes "0 \<le> m" and "0 \<le> h"
  shows "enclosed (m * (12 * (h / 36))) (0.189 * round_lo ^ 7) (0.189 * round_hi ^ 7)
           (pensoenEmployer (calculation_double s t h m))"
proof -
  have "enclosed (m * (12 * (h / 36))) (0.189 * round_lo ^ 3 * round_lo ^ 4)
      (0.189 * round_hi ^ 3 * round_hi ^ 4) (pensoenEmployer (calculation_double s t h m))"
    unfolding dcalc_employer
    using assms round_lo_nonneg
    by (intro enclosed_share [OF assms enclosed_employer_share]) simp_all
  moreover have "0.189 * round_lo ^ 3 * round_lo ^ 4 = 0.189 * round_lo ^ 7"
    and "0.189 * round_hi ^ 3 * round_hi ^ 4 = 0.189 * round_hi ^ 7"
    by (simp_all add: mult.assoc power_add [symmetric])
  ultimately show ?thesis
    by (simp only:)
qed

lemma enclosed_employee:
  assumes "0 \<le> m" and "0 \<le> h"
  shows "enclosed (m * (12 * (h / 36))) (0.081 * round_lo ^ 5) (0.081 * round_hi ^ 5)
           (individualPensionContribution (calculation_double s t h m))"
  unfolding dcalc_employee using assms by (intro enclosed_literal_share) simp_all

lemma enclosed_ikb:
  assumes "0 \<le> m" and "0 \<le> h"
  shows "enclosed (m * (12 * (h / 36))) (0.165 * round_lo ^ 5) (0.165 * round_hi ^ 5)
           (ikbBudget (calculation_double s t h m))"
  unfolding dcalc_ikb using assms by (intro enclosed_literal_share) simp_all

lemma enclosed_yearly_field:
  assumes "0 \<le> m" and "0 \<le> h"
  shows "enclosed (m * (12 * (h / 36))) (round_lo ^ 3) (round_hi ^ 3)
           (yearlyPreTaxSalary (calculation_double s t h m))"
  unfolding dcalc_yearly using assms by (rule enclosed_yearly)

lemma base_nonneg: "0 \<le> m \<Longrightarrow> 0 \<le> h \<Longrightarrow> 0 \<le> m * (12 * (h / 36))" for m h :: number
  by simp

lemma enclosed_pension:
  assumes "0 \<le> m" and "0 \<le> h"
  shows "enclosed (m * (12 * (h / 36))) (0.27 * round_lo ^ 8) (0.27 * round_hi ^ 8)
           (pension (calculation_double s t h m))"
proof -
  have "enclosed (m * (12 * (h / 36)))
      ((0.081 * round_lo ^ 5 + 0.189 * round_lo ^ 7) * round_lo)
      ((0.081 * round_hi ^ 5 + 0.189 * round_hi ^ 7) * round_hi)
      (pension (calculation_double s t h m))"
    unfolding dcalc_pension
    using enclosed_employee [OF assms] enclosed_employer [OF assms] base_nonneg [OF assms]
    by (rule enclosed_add64) (simp add: round_lo_def)
  then show ?thesis
    using base_nonneg [OF assms]
    by (rule enclosed_widen) (simp_all add: round_lo_def round_hi_def divide_simps)
qed

lemma enclosed_pretax:
  assumes "0 \<le> m" and "0 \<le> h"
  shows "enclosed (m * (12 * (h / 36))) (1.084 * round_lo ^ 9) (1.084 * round_hi ^ 9)
           (pretaxSalaryInclBenefits (calculation_double s t h m))"
proof -
  let ?c = "calculation_double s t h m"
  have sum: "enclosed (m * (12 * (h / 36)))
      ((round_lo ^ 3 + 0.165 * round_lo ^ 5) * round_lo)
      ((round_hi ^ 3 + 0.165 * round_hi ^ 5) * round_hi)
      (add64 (yearlyPreTaxSalary ?c) (ikbBudget ?c))"
    using enclosed_yearly_field [OF assms] enclosed_ikb [OF assms] base_nonneg [OF assms]
    by (rule enclosed_add64) (simp add: round_lo_def)
  have "enclosed (m * (12 * (h / 36)))
      (((round_lo ^ 3 + 0.165 * round_lo ^ 5) * round_lo - 0.081 * round_hi ^ 5) * round_lo)
      (((round_hi ^ 3 + 0.165 * round_hi ^ 5) * round_hi - 0.081 * round_lo ^ 5) * round_hi)
      (pretaxSalaryInclBenefits ?c)"
    unfolding dcalc_pretax
    using sum enclosed_employee [OF assms] base_nonneg [OF assms]
    by (rule enclosed_sub64) (simp add: round_lo_def round_hi_def divide_simps)
  then show ?thesis
    using base_nonneg [OF assms]
    by (rule enclosed_widen) (simp_all add: round_lo_def round_hi_def divide_simps)
qed

lemma enclosed_total:
  assumes "0 \<le> m" and "0 \<le> h"
  shows "enclosed (m * (12 * (h / 36))) (1.354 * round_lo ^ 10) (1.354 * round_hi ^ 10)
           (totalCompensation (calculation_double s t h m))"
proof -
  have "enclosed (m * (12 * (h / 36)))
      ((1.084 * round_lo ^ 9 + 0.27 * round_lo ^ 8) * round_lo)
      ((1.084 * round_hi ^ 9 + 0.27 * round_hi ^ 8) * round_hi)
      (totalCompensation (calculation_double s t h m))"
    unfolding dcalc_total
    using enclosed_pretax [OF assms] enclosed_pension [OF assms] base_nonneg [OF assms]
    by (rule enclosed_add64) (simp add: round_lo_def)
  then show ?thesis
    using base_nonneg [OF assms]
    by (rule enclosed_widen) (simp_all add: round_lo_def round_hi_def divide_simps)
qed



text \<open>
  The total is at least the yearly gross salary on doubles as well: ten roundings cannot
  use up the 35.4 percent that the benefits add.
\<close>

lemma total_at_least_yearly_on_doubles:
  assumes "0 \<le> m" and "0 \<le> h"
  shows "yearlyPreTaxSalary (calculation_double s t h m) \<le> totalCompensation (calculation_double s t h m)"
proof -
  let ?g = "m * (12 * (h / 36))"
  have g: "0 \<le> ?g"
    using assms by (rule base_nonneg)
  have "yearlyPreTaxSalary (calculation_double s t h m) \<le> ?g * round_hi ^ 3"
    using enclosed_yearly_field [OF assms] by (simp add: enclosed_def)
  also have "\<dots> \<le> ?g * (1.354 * round_lo ^ 10)"
    using g by (intro mult_left_mono) (simp_all add: round_lo_def round_hi_def divide_simps)
  also have "\<dots> \<le> totalCompensation (calculation_double s t h m)"
    using enclosed_total [OF assms] by (simp add: enclosed_def)
  finally show ?thesis .
qed

section \<open>Pension contributions\<close>

text \<open>
  C2 (as amended). For every (scale, step) pair of the table with a monthly amount \<open>m\<close>
  between a cent and a billion and every number of hours between 1 and 168, in the
  doubles of the script: the scale factor is 12 times the hours over 36, the employee's
  pension contribution is \<open>m * 0.081\<close> times the scale factor, the employer's is
  \<open>m * (0.27 - 0.081)\<close> times the scale factor, and the total pension is the sum of the
  two. The total pension is 27 percent of \<open>m\<close> times the scale factor up to rounding: it
  differs from the exact \<open>0.27 * m * 12 * hours / 36\<close> by at most that amount over \<open>2 ^ 49\<close>.
\<close>

theorem pension_contributions_on_doubles:
  assumes "getMonthlyCompensation salaryData schaal trede = Inr m"
    and "1 / 100 \<le> m" and "m \<le> 10 ^ 9" and "1 \<le> uren" and "uren \<le> 168"
  shows "\<exists>c. page_double salaryData schaal trede uren = Inr c
           \<and> scaleFactor c = mul64 12 (div64 uren 36)
           \<and> individualPensionContribution c = mul64 (mul64 m (double 0.081)) (scaleFactor c)
           \<and> pensoenEmployer c
               = mul64 (mul64 m (sub64 (double 0.27) (double 0.081))) (scaleFactor c)
           \<and> pension c = add64 (individualPensionContribution c) (pensoenEmployer c)
           \<and> \<bar>pension c - 0.27 * (m * (12 * (uren / 36)))\<bar>
               \<le> 0.27 * (m * (12 * (uren / 36))) / 2 ^ 49"
proof -
  let ?c = "calculation_double schaal trede uren m"
  have m: "0 \<le> m" and h: "0 \<le> uren"
    using assms(2,4) by simp_all
  have shown: "page_double salaryData schaal trede uren = Inr ?c"
    using assms(1) by (rule page_double_found)
  have factor: "scaleFactor ?c = mul64 12 (div64 uren 36)"
    by (rule dcalc_scaleFactor)
  have employee: "individualPensionContribution ?c = mul64 (mul64 m (double 0.081)) (scaleFactor ?c)"
    by (simp only: dcalc_employee dcalc_scaleFactor)
  have employer: "pensoenEmployer ?c
      = mul64 (mul64 m (sub64 (double 0.27) (double 0.081))) (scaleFactor ?c)"
    by (simp only: dcalc_employer dcalc_scaleFactor)
  have both: "pension ?c = add64 (individualPensionContribution ?c) (pensoenEmployer ?c)"
    by (rule dcalc_pension)
  have "\<bar>pension ?c - 0.27 * (m * (12 * (uren / 36)))\<bar>
      \<le> 0.27 * (m * (12 * (uren / 36))) * (1 / 2 ^ 49)"
    using enclosed_pension [OF m h] base_nonneg [OF m h]
    by (rule enclosed_error) (simp_all add: round_lo_def round_hi_def divide_simps)
  then have share: "\<bar>pension ?c - 0.27 * (m * (12 * (uren / 36)))\<bar>
      \<le> 0.27 * (m * (12 * (uren / 36))) / 2 ^ 49"
    by simp
  from shown factor employee employer both share show ?thesis
    by blast
qed

theorem pension_contributions_on_doubles_witness:
  "getMonthlyCompensation scenarioTable 11 5 = Inr 4000
   \<and> (1 / 100 :: number) \<le> 4000 \<and> (4000 :: number) \<le> 10 ^ 9
   \<and> (1 :: number) \<le> 40 \<and> (40 :: number) \<le> 168
   \<and> (\<exists>c. page_double scenarioTable 11 5 40 = Inr c
          \<and> scaleFactor c = mul64 12 (div64 40 36)
          \<and> pension c = add64 (individualPensionContribution c) (pensoenEmployer c)
          \<and> \<bar>pension c - 14400\<bar> \<le> 14400 / 2 ^ 49)"
proof -
  have amount: "(1 / 100 :: number) \<le> 4000" "(4000 :: number) \<le> 10 ^ 9"
    and hours: "(1 :: number) \<le> 40" "(40 :: number) \<le> 168"
    by simp_all
  from pension_contributions_on_doubles [OF scenario_lookup amount hours]
  obtain c where "page_double scenarioTable 11 5 40 = Inr c"
      "scaleFactor c = mul64 12 (div64 40 36)"
      "pension c = add64 (individualPensionContribution c) (pensoenEmployer c)"
      "\<bar>pension c - 0.27 * (4000 * (12 * (40 / 36)))\<bar> \<le> 0.27 * (4000 * (12 * (40 / 36))) / 2 ^ 49"
    by blast
  moreover have "0.27 * (4000 * (12 * (40 / 36))) = (14400 :: number)"
    by simp
  ultimately show ?thesis
    using scenario_lookup amount hours by auto
qed

text \<open>
  The identity itself fails in doubles. For 4000 a month at 40 hours the total pension is
  14400, while 27 percent of the monthly amount times the scale factor comes to
  14400.000000000002 when it is computed in doubles, and is not 14400 either when the
  two products are exact, the scale factor being the double 13.333333333333334.
\<close>

theorem pension_share_counterexample:
  "page_double scenarioTable 11 5 40 = Inr (calculation_double 11 5 40 4000)
   \<and> scaleFactor (calculation_double 11 5 40 4000) = 7505999378950827 / 2 ^ 49
   \<and> pension (calculation_double 11 5 40 4000) = 14400
   \<and> mul64 (double 0.27) (mul64 4000 (scaleFactor (calculation_double 11 5 40 4000)))
       = 14400 + 1 / 2 ^ 39
   \<and> pension (calculation_double 11 5 40 4000)
       \<noteq> mul64 (double 0.27) (mul64 4000 (scaleFactor (calculation_double 11 5 40 4000)))
   \<and> pension (calculation_double 11 5 40 4000)
       \<noteq> 0.27 * (4000 * scaleFactor (calculation_double 11 5 40 4000))"
proof -
  let ?c = "calculation_double 11 5 40 4000"
  have shown: "page_double scenarioTable 11 5 40 = Inr ?c"
    using scenario_lookup by (rule page_double_found)
  have factor: "scaleFactor ?c = 7505999378950827 / 2 ^ 49"
    unfolding dcalc_scaleFactor by code_simp
  have employee: "individualPensionContribution ?c = 4320"
    unfolding dcalc_employee by code_simp
  have employer: "pensoenEmployer ?c = 10080"
    unfolding dcalc_employer by code_simp
  have total: "pension ?c = 14400"
    unfolding dcalc_pension employee employer by code_simp
  have share: "mul64 (double 0.27) (mul64 4000 (scaleFactor ?c)) = 14400 + 1 / 2 ^ 39"
    unfolding factor by code_simp
  have differs: "pension ?c \<noteq> mul64 (double 0.27) (mul64 4000 (scaleFactor ?c))"
    unfolding total share by simp
  have differs_exact: "pension ?c \<noteq> 0.27 * (4000 * scaleFactor ?c)"
    unfolding total factor by simp
  from shown factor total share differs differs_exact show ?thesis
    by blast
qed

section \<open>Scaling with the hours\<close>




section \<open>The totals of the two pages at 36 hours\<close>




end
